theory Spec2Isabelle
  imports Main
begin

section \<open>JavaScript values that occur in the calculator service\<close>

text \<open>
  The calculator service reads two query parameters, turns them into numbers with
  \<^verbatim>\<open>parseInt\<close>, and hands them to an arithmetic function. The JavaScript values that can
  sit in \<^verbatim>\<open>req.a\<close> and \<^verbatim>\<open>req.b\<close> are \<^verbatim>\<open>undefined\<close> (the field was never written) and the
  numbers \<^verbatim>\<open>parseInt\<close> can return: \<^verbatim>\<open>NaN\<close>, an integral binary64 number, or one of the two
  infinities (a run of digits too long for binary64). \<open>Num n\<close> is the number whose
  value is the integer \<open>n\<close>. Negative zero is identified with zero: both are falsy and
  both serialise as \<^verbatim>\<open>0\<close>.
\<close>

datatype jsval = Undefined | NaN | Num int | Infinity | NegInfinity

text \<open>\<^verbatim>\<open>!v\<close>: the value is falsy.\<close>

fun js_not :: "jsval \<Rightarrow> bool" where
  "js_not Undefined = True"
| "js_not NaN = True"
| "js_not (Num n) = (n = 0)"
| "js_not Infinity = False"
| "js_not NegInfinity = False"

text \<open>\<^verbatim>\<open>isNaN(v)\<close>: the value converts to the number \<^verbatim>\<open>NaN\<close>.\<close>

fun isNaN :: "jsval \<Rightarrow> bool" where
  "isNaN Undefined = True"
| "isNaN NaN = True"
| "isNaN (Num n) = False"
| "isNaN Infinity = False"
| "isNaN NegInfinity = False"

subsection \<open>Strings\<close>

text \<open>
  A JavaScript string is a sequence of UTF-16 code units. \<open>units\<close> writes an ASCII
  text as such a sequence.
\<close>

type_synonym jsstring = "nat list"

definition units :: "string \<Rightarrow> jsstring" where
  "units s = map of_char s"

subsection \<open>Rounding an integer to binary64\<close>

text \<open>
  The binary64 number of an integer: the integer itself up to \<open>2 ^ 53\<close>; beyond, the
  nearest number with a significand of 53 bits, a tie going to the even significand;
  an infinity when that number would reach \<open>2 ^ 1024\<close>.
\<close>

fun bit_length :: "nat \<Rightarrow> nat" where
  "bit_length n = (if n = 0 then 0 else Suc (bit_length (n div 2)))"

declare bit_length.simps [simp del]

definition round_magnitude :: "nat \<Rightarrow> nat option" where
  "round_magnitude n =
     (if n \<le> 2 ^ 53 then Some n
      else
        let e = bit_length n - 53;
            q = n div 2 ^ e;
            r = n mod 2 ^ e;
            half = 2 ^ (e - 1);
            q' = (if half < r \<or> (r = half \<and> odd q) then q + 1 else q)
        in if 2 ^ 1024 \<le> q' * 2 ^ e then None else Some (q' * 2 ^ e))"

definition to_double :: "int \<Rightarrow> jsval" where
  "to_double i =
     (case round_magnitude (nat \<bar>i\<bar>) of
        None \<Rightarrow> (if i < 0 then NegInfinity else Infinity)
      | Some v \<Rightarrow> Num (if i < 0 then - int v else int v))"

subsection \<open>\<^verbatim>\<open>parseInt\<close> with no radix argument\<close>

text \<open>
  A query parameter is either absent (\<^verbatim>\<open>req.query.a\<close> is \<^verbatim>\<open>undefined\<close>) or a string.
  \<^verbatim>\<open>parseInt\<close> first converts its argument to a string, so an absent parameter is
  parsed as the text \<^verbatim>\<open>undefined\<close>.
\<close>

definition to_string :: "jsstring option \<Rightarrow> jsstring" where
  "to_string v = (case v of None \<Rightarrow> units ''undefined'' | Some s \<Rightarrow> s)"

text \<open>
  White space and line terminators: TAB, LF, VT, FF, CR, SP, NBSP, U+1680,
  U+2000 to U+200A, U+2028, U+2029, U+202F, U+205F, U+3000 and U+FEFF.
\<close>

definition is_ws :: "nat \<Rightarrow> bool" where
  "is_ws c =
     (c \<in> {9, 10, 11, 12, 13, 32, 160, 5760, 8232, 8233, 8239, 8287, 12288, 65279}
      \<or> (8192 \<le> c \<and> c \<le> 8202))"

text \<open>The value of a code unit as a digit: \<^verbatim>\<open>0-9\<close>, \<^verbatim>\<open>a-z\<close> and \<^verbatim>\<open>A-Z\<close> stand for 0 to 35.\<close>

definition digit_value :: "nat \<Rightarrow> nat option" where
  "digit_value c =
     (if 48 \<le> c \<and> c \<le> 57 then Some (c - 48)
      else if 97 \<le> c \<and> c \<le> 122 then Some (c - 87)
      else if 65 \<le> c \<and> c \<le> 90 then Some (c - 55)
      else None)"

definition is_digit :: "nat \<Rightarrow> nat \<Rightarrow> bool" where
  "is_digit R c = (case digit_value c of None \<Rightarrow> False | Some d \<Rightarrow> d < R)"

definition digit :: "nat \<Rightarrow> nat" where
  "digit c = (case digit_value c of None \<Rightarrow> 0 | Some d \<Rightarrow> d)"

definition math_int :: "nat \<Rightarrow> jsstring \<Rightarrow> nat" where
  "math_int R Z = foldl (\<lambda>n c. n * R + digit c) 0 Z"

text \<open>
  The steps of \<^verbatim>\<open>parseInt(string)\<close>: strip leading white space; read and remove a
  sign; with no radix given the radix is 10, unless the text goes on with \<^verbatim>\<open>0x\<close> or
  \<^verbatim>\<open>0X\<close>, which is removed and makes the radix 16; take the longest run of digits of
  that radix; no digit at all gives \<^verbatim>\<open>NaN\<close>, otherwise the binary64 number of the signed
  value of the run. Whatever follows the run is ignored. (ECMAScript lets an engine
  read the decimal digits after the twentieth significant one as zeros; here every
  digit counts.)
\<close>

definition parse_int_string :: "jsstring \<Rightarrow> jsval" where
  "parse_int_string inputString =
     (let S = dropWhile is_ws inputString;
          sign = (if S \<noteq> [] \<and> hd S = of_char CHR ''-'' then - 1 else 1 :: int);
          S1 = (if S \<noteq> [] \<and> (hd S = of_char CHR ''+'' \<or> hd S = of_char CHR ''-'')
                then tl S else S);
          hex = (take 2 S1 = units ''0x'' \<or> take 2 S1 = units ''0X'');
          R = (if hex then 16 else 10 :: nat);
          S2 = (if hex then drop 2 S1 else S1);
          Z = takeWhile (is_digit R) S2
      in if Z = [] then NaN else to_double (sign * int (math_int R Z)))"

definition parseInt :: "jsstring option \<Rightarrow> jsval" where
  "parseInt v = parse_int_string (to_string v)"

section \<open>Requests, responses and the Express pipeline\<close>

text \<open>
  The request context is the \<^verbatim>\<open>req\<close> object of one incoming message. Express builds a
  new one for every message; the fields \<^verbatim>\<open>req.a\<close> and \<^verbatim>\<open>req.b\<close> do not exist on it
  (reading them gives \<^verbatim>\<open>undefined\<close>) until some stage writes them. \<^verbatim>\<open>req.query\<close> is the
  parsed query string, here a finite map from parameter names to their text (a
  parameter that is repeated or written with brackets, which Express turns into an
  array or an object, is not covered). The record is extensible: whatever else a
  request carries lives in its \<open>more\<close> part.
\<close>

datatype http_method = GET | HEAD | POST | PUT | DELETE

record request =
  req_method :: http_method
  req_path :: jsstring
  req_query :: "string \<rightharpoonup> jsstring"
  req_a :: jsval
  req_b :: jsval

definition incoming :: "http_method \<Rightarrow> jsstring \<Rightarrow> (string \<rightharpoonup> jsstring) \<Rightarrow> request" where
  "incoming m p q =
     \<lparr>req_method = m, req_path = p, req_query = q, req_a = Undefined, req_b = Undefined\<rparr>"

datatype json = JNull | JNum int

datatype payload = Text string | Json "(string \<times> json) list"

record response =
  status :: nat
  body :: payload

text \<open>
  A pipeline stage \<^verbatim>\<open>function(req, res, next)\<close> either calls \<^verbatim>\<open>next()\<close>, handing the
  (possibly mutated) request on, or ends the response.
\<close>

datatype 'r outcome = Next 'r | Respond response

text \<open>
  \<^verbatim>\<open>res.json(obj)\<close> sends \<^verbatim>\<open>JSON.stringify(obj)\<close> with the status left at its default,
  200. \<^verbatim>\<open>JSON.stringify\<close> leaves out a property whose value is \<^verbatim>\<open>undefined\<close> and writes
  \<^verbatim>\<open>NaN\<close> and the infinities as \<^verbatim>\<open>null\<close>.
\<close>

fun stringify :: "(string \<times> jsval) list \<Rightarrow> (string \<times> json) list" where
  "stringify [] = []"
| "stringify ((k, Undefined) # kvs) = stringify kvs"
| "stringify ((k, NaN) # kvs) = (k, JNull) # stringify kvs"
| "stringify ((k, Num n) # kvs) = (k, JNum n) # stringify kvs"
| "stringify ((k, Infinity) # kvs) = (k, JNull) # stringify kvs"
| "stringify ((k, NegInfinity) # kvs) = (k, JNull) # stringify kvs"

definition res_json :: "(string \<times> jsval) list \<Rightarrow> response" where
  "res_json obj = \<lparr>status = 200, body = Json (stringify obj)\<rparr>"

text \<open>
  The application is the list of its layers in the order they were registered:
  \<^verbatim>\<open>app.use(fn)\<close> runs \<open>fn\<close> on every request, \<^verbatim>\<open>app.get(path, fn)\<close> runs \<open>fn\<close> on the
  requests of that path whose method is GET (or HEAD, which Express gives to the GET
  route when no HEAD route exists). With Express's default settings a route path
  matches without regard to the case of its letters and with or without one trailing
  slash. A request that no layer answers falls through to Express's own final
  handler, which is not code of this repository: \<open>dispatch\<close> returns \<open>None\<close> there.
\<close>

datatype 'r layer = Use "'r \<Rightarrow> 'r outcome" | Route http_method jsstring "'r \<Rightarrow> 'r outcome"

definition handles_method :: "http_method \<Rightarrow> http_method \<Rightarrow> bool" where
  "handles_method route_m m = (m = route_m \<or> (m = HEAD \<and> route_m = GET))"

definition lower_unit :: "nat \<Rightarrow> nat" where
  "lower_unit c = (if 65 \<le> c \<and> c \<le> 90 then c + 32 else c)"

definition path_matches :: "jsstring \<Rightarrow> jsstring \<Rightarrow> bool" where
  "path_matches route p =
     (map lower_unit p = map lower_unit route
      \<or> map lower_unit p = map lower_unit route @ units ''/'')"

fun dispatch :: "('z request_scheme) layer list \<Rightarrow> 'z request_scheme \<Rightarrow> response option" where
  "dispatch [] req = None"
| "dispatch (Use fn # stack) req =
     (case fn req of Respond r \<Rightarrow> Some r | Next req' \<Rightarrow> dispatch stack req')"
| "dispatch (Route m p fn # stack) req =
     (if handles_method m (req_method req) \<and> path_matches p (req_path req)
      then (case fn req of Respond r \<Rightarrow> Some r | Next req' \<Rightarrow> dispatch stack req')
      else dispatch stack req)"

section \<open>The arithmetic library\<close>

text \<open>
  Modelled from the spec: \<^verbatim>\<open>lib/add.js\<close> and \<^verbatim>\<open>lib/subtract.js\<close>. The README creates them
  as stubs that return 0, writes the unit tests that the stubs fail, and leaves the
  implementation to the reader; the implemented files are not among the sources. The
  spec: \<^verbatim>\<open>add(a, b)\<close> returns the arithmetic sum, \<^verbatim>\<open>subtract(a, b)\<close> returns the arithmetic
  difference \<^verbatim>\<open>a - b\<close>, with no validation; on two integers the model returns exactly
  that sum and that difference. On the other operands the model takes what
  JavaScript's own \<^verbatim>\<open>a + b\<close> and \<^verbatim>\<open>a - b\<close> give: \<^verbatim>\<open>NaN\<close> when an operand is \<^verbatim>\<open>undefined\<close>
  or \<^verbatim>\<open>NaN\<close> or when two infinities cancel, otherwise the infinity.
\<close>

fun add :: "jsval \<Rightarrow> jsval \<Rightarrow> jsval" where
  "add (Num x) (Num y) = Num (x + y)"
| "add (Num x) Infinity = Infinity"
| "add Infinity (Num y) = Infinity"
| "add Infinity Infinity = Infinity"
| "add (Num x) NegInfinity = NegInfinity"
| "add NegInfinity (Num y) = NegInfinity"
| "add NegInfinity NegInfinity = NegInfinity"
| "add _ _ = NaN"

fun subtract :: "jsval \<Rightarrow> jsval \<Rightarrow> jsval" where
  "subtract (Num x) (Num y) = Num (x - y)"
| "subtract (Num x) Infinity = NegInfinity"
| "subtract (Num x) NegInfinity = Infinity"
| "subtract Infinity (Num y) = Infinity"
| "subtract NegInfinity (Num y) = NegInfinity"
| "subtract Infinity NegInfinity = Infinity"
| "subtract NegInfinity Infinity = NegInfinity"
| "subtract _ _ = NaN"

section \<open>Route handlers\<close>

text \<open>
  \<^verbatim>\<open>routes/add.js\<close>, as the README gives it:
  \<^verbatim>\<open>module.exports = function(req, res, next){ return res.json({ result : add(req.a, req.b) }); };\<close>
\<close>

definition routes_add :: "'z request_scheme \<Rightarrow> 'z request_scheme outcome" where
  "routes_add req = Respond (res_json [(''result'', add (req_a req) (req_b req))])"

text \<open>
  Modelled from the spec: \<^verbatim>\<open>routes/subtract.js\<close>, which the README does not print (it
  "looked pretty similar" to the add route). The spec: the handler invokes the
  corresponding arithmetic function with the two operands of the request context and
  responds with status 200 and the body \<^verbatim>\<open>{ "result": <number> }\<close>.
\<close>

definition routes_subtract :: "'z request_scheme \<Rightarrow> 'z request_scheme outcome" where
  "routes_subtract req = Respond (res_json [(''result'', subtract (req_a req) (req_b req))])"

section \<open>The validation middleware\<close>

text \<open>
  The middleware of the README:
  \<^verbatim>\<open>
  app.use(function(req, res, next){
    var a = parseInt(req.query.a),
    b = parseInt(req.query.b);
    if (!a || !b || isNaN(a) || isNaN(b)){
      return res.status(422).end("You must specify two numbers as query params, A and B");
    }
    req.a = a;
    req.b = b;
    return next();
  });
  \<close>
\<close>

definition validation :: "'z request_scheme \<Rightarrow> 'z request_scheme outcome" where
  "validation req =
     (let a = parseInt (req_query req ''a'');
          b = parseInt (req_query req ''b'')
      in if js_not a \<or> js_not b \<or> isNaN a \<or> isNaN b
         then Respond \<lparr>status = 422,
                body = Text ''You must specify two numbers as query params, A and B''\<rparr>
         else Next (req\<lparr>req_a := a, req_b := b\<rparr>))"

text \<open>
  The same middleware with the failure condition cut down to \<^verbatim>\<open>!a || !b\<close>, to compare
  with the one above.
\<close>

definition validation_short :: "'z request_scheme \<Rightarrow> 'z request_scheme outcome" where
  "validation_short req =
     (let a = parseInt (req_query req ''a'');
          b = parseInt (req_query req ''b'')
      in if js_not a \<or> js_not b
         then Respond \<lparr>status = 422,
                body = Text ''You must specify two numbers as query params, A and B''\<rparr>
         else Next (req\<lparr>req_a := a, req_b := b\<rparr>))"

section \<open>The application\<close>

text \<open>
  \<^verbatim>\<open>app.js\<close> as it stands in the repository registers two layers and nothing else:
  \<^verbatim>\<open>
  app.get('/add', require('./routes/add'));
  app.get('/subtract', require('./routes/subtract'));
  \<close>
\<close>

definition app :: "('z request_scheme) layer list" where
  "app = [Route GET (units ''/add'') routes_add, Route GET (units ''/subtract'') routes_subtract]"

text \<open>
  The README tells the reader to update \<^verbatim>\<open>app.js\<close> with the validation middleware, so that
  the input checks happen "before these two functions run": the middleware ahead of
  the two routes.
\<close>

definition app_with_validation :: "('z request_scheme) layer list" where
  "app_with_validation = Use validation # app"

section \<open>Writing an integer into a query string\<close>

text \<open>
  A client that asks for \<^verbatim>\<open>/add?a=a&b=b\<close> writes each integer in decimal, with a minus
  sign when it is negative and no leading zeros.
\<close>

fun digits10 :: "nat \<Rightarrow> jsstring" where
  "digits10 n = (if n < 10 then [48 + n] else digits10 (n div 10) @ [48 + n mod 10])"

declare digits10.simps [simp del]

definition decimal :: "int \<Rightarrow> jsstring" where
  "decimal i = (if i < 0 then of_char CHR ''-'' # digits10 (nat (- i)) else digits10 (nat i))"

section \<open>Facts about \<^verbatim>\<open>parseInt\<close>\<close>

lemmas parse_defs = parseInt_def parse_int_string_def to_string_def is_digit_def
  digit_value_def math_int_def digit_def is_ws_def units_def to_double_def round_magnitude_def

lemma parseInt_missing: "parseInt None = NaN"
  by (simp add: parse_defs)

lemma isNaN_js_not: "isNaN v \<Longrightarrow> js_not v"
  by (cases v) simp_all

lemma not_js_not_cases:
  "\<not> js_not v \<longleftrightarrow> v = Infinity \<or> v = NegInfinity \<or> (\<exists>m. m \<noteq> 0 \<and> v = Num m)"
  by (cases v) simp_all

lemma to_double_small: "\<bar>i\<bar> \<le> 2 ^ 53 \<Longrightarrow> to_double i = Num i"
  by (simp add: to_double_def round_magnitude_def nat_le_iff)

lemma digit_value_decimal: "d < 10 \<Longrightarrow> digit_value (48 + d) = Some d"
  by (simp add: digit_value_def)

lemma is_digit_decimal: "d < 10 \<Longrightarrow> is_digit 10 (48 + d)"
  by (simp add: is_digit_def digit_value_decimal)

lemma digit_decimal: "d < 10 \<Longrightarrow> digit (48 + d) = d"
  by (simp add: digit_def digit_value_decimal)

lemma digits10_nonempty: "digits10 n \<noteq> []"
  by (simp add: digits10.simps [of n])

lemma digits10_digits: "c \<in> set (digits10 n) \<Longrightarrow> is_digit 10 c"
proof (induction n arbitrary: c rule: digits10.induct)
  case (1 n)
  show ?case
  proof (cases "n < 10")
    case True
    with "1.prems" show ?thesis
      by (simp add: digits10.simps [of n] is_digit_decimal)
  next
    case False
    with "1.prems" have "c \<in> set (digits10 (n div 10)) \<or> c = 48 + n mod 10"
      by (auto simp: digits10.simps [of n])
    then show ?thesis
      using "1.IH" False by (auto simp: is_digit_decimal)
  qed
qed

lemma math_int_snoc: "math_int R (Z @ [c]) = math_int R Z * R + digit c"
  by (simp add: math_int_def)

lemma math_int_digits10: "math_int 10 (digits10 n) = n"
proof (induction n rule: digits10.induct)
  case (1 n)
  show ?case
  proof (cases "n < 10")
    case True
    then show ?thesis
      by (simp add: digits10.simps [of n] math_int_def digit_decimal)
  next
    case False
    then have "math_int 10 (digits10 n) = math_int 10 (digits10 (n div 10)) * 10 + n mod 10"
      by (simp add: digits10.simps [of n] math_int_snoc digit_decimal)
    with "1.IH" False show ?thesis by simp
  qed
qed

lemma hd_digits10_nonzero: "0 < n \<Longrightarrow> hd (digits10 n) \<noteq> 48"
proof (induction n rule: digits10.induct)
  case (1 n)
  show ?case
  proof (cases "n < 10")
    case True
    then show ?thesis
      using "1.prems" by (simp add: digits10.simps [of n])
  next
    case False
    then have "hd (digits10 n) = hd (digits10 (n div 10))"
      by (simp add: digits10.simps [of n] digits10_nonempty)
    moreover have "0 < n div 10"
      using False by simp
    ultimately show ?thesis
      using "1.IH" False by simp
  qed
qed

lemma is_digit_not_ws: "is_digit 10 c \<Longrightarrow> \<not> is_ws c"
  by (auto simp: is_digit_def digit_value_def is_ws_def split: if_splits option.splits)

lemma is_digit_not_sign: "is_digit 10 c \<Longrightarrow> c \<noteq> 43 \<and> c \<noteq> 45"
  by (auto simp: is_digit_def digit_value_def split: if_splits)

lemma is_digit_not_x: "is_digit 10 c \<Longrightarrow> c \<noteq> 120 \<and> c \<noteq> 88"
  by (auto simp: is_digit_def digit_value_def split: if_splits)

lemma units_consts:
  "units ''0x'' = [48, 120]" "units ''0X'' = [48, 88]" "units ''+'' = [43]" "units ''-'' = [45]"
  "(of_char CHR ''-'' :: nat) = 45" "(of_char CHR ''+'' :: nat) = 43"
  by (simp_all add: units_def)

lemma parse_unsigned:
  assumes ds: "ds \<noteq> []" "\<forall>c\<in>set ds. is_digit 10 c"
    and rest: "rest = [] \<or> \<not> is_digit 10 (hd rest)"
    and nohex: "ds = [48] \<longrightarrow> rest = [] \<or> (hd rest \<noteq> 120 \<and> hd rest \<noteq> 88)"
  shows "takeWhile (is_digit 10) (ds @ rest) = ds"
    and "take 2 (ds @ rest) \<noteq> [48, 120]" and "take 2 (ds @ rest) \<noteq> [48, 88]"
proof -
  have "takeWhile (is_digit 10) rest = []"
    using rest by (cases rest) auto
  then show "takeWhile (is_digit 10) (ds @ rest) = ds"
    using ds(2) by simp
  obtain c cs where cs: "ds = c # cs"
    using ds(1) by (cases ds) auto
  have "take 2 (ds @ rest) \<noteq> [48, 120] \<and> take 2 (ds @ rest) \<noteq> [48, 88]"
  proof (cases cs)
    case Nil
    show ?thesis
    proof (cases rest)
      case Nil
      with \<open>cs = []\<close> cs show ?thesis by simp
    next
      case (Cons r rs)
      with \<open>cs = []\<close> cs nohex show ?thesis by auto
    qed
  next
    case (Cons d cs')
    then have "is_digit 10 d"
      using ds(2) cs by simp
    then show ?thesis
      using cs Cons is_digit_not_x [of d] by simp
  qed
  then show "take 2 (ds @ rest) \<noteq> [48, 120]" and "take 2 (ds @ rest) \<noteq> [48, 88]"
    by simp_all
qed

lemma parse_int_string_steps:
  assumes S: "dropWhile is_ws s = S"
    and S1: "S1 = (if S \<noteq> [] \<and> (hd S = 43 \<or> hd S = 45) then tl S else S)"
    and nohex: "take 2 S1 \<noteq> [48, 120]" "take 2 S1 \<noteq> [48, 88]"
    and Z: "takeWhile (is_digit 10) S1 = Z" "Z \<noteq> []"
  shows "parse_int_string s
         = to_double ((if S \<noteq> [] \<and> hd S = 45 then - 1 else 1) * int (math_int 10 Z))"
proof -
  have a: "(take 2 S1 = [48, 120]) = False" "(take 2 S1 = [48, 88]) = False" "(Z = []) = False"
    using nohex Z(2) by simp_all
  have "parse_int_string s =
     (let sign = (if S \<noteq> [] \<and> hd S = 45 then - 1 else 1 :: int);
          hex = (take 2 S1 = [48, 120] \<or> take 2 S1 = [48, 88]);
          R = (if hex then 16 else 10 :: nat);
          S2 = (if hex then drop 2 S1 else S1);
          Z = takeWhile (is_digit R) S2
      in if Z = [] then NaN else to_double (sign * int (math_int R Z)))"
    unfolding parse_int_string_def units_consts S S1 [symmetric] Let_def ..
  also have "\<dots> = to_double ((if S \<noteq> [] \<and> hd S = 45 then - 1 else 1) * int (math_int 10 Z))"
    unfolding Let_def a by (simp only: simp_thms if_False Z(1) a)
  finally show ?thesis .
qed

lemma parse_int_prefix:
  assumes w: "\<forall>c\<in>set w. is_ws c"
    and sg: "sg = [] \<or> sg = units ''+'' \<or> sg = units ''-''"
    and ds: "ds \<noteq> []" "\<forall>c\<in>set ds. is_digit 10 c"
    and rest: "rest = [] \<or> \<not> is_digit 10 (hd rest)"
    and nohex: "ds = [48] \<longrightarrow> rest = [] \<or> (hd rest \<noteq> 120 \<and> hd rest \<noteq> 88)"
  shows "parse_int_string (w @ sg @ ds @ rest)
         = to_double ((if sg = units ''-'' then - 1 else 1) * int (math_int 10 ds))"
proof -
  obtain c cs where cs: "ds = c # cs"
    using ds(1) by (cases ds) auto
  have c: "is_digit 10 c"
    using ds(2) cs by simp
  note u = parse_unsigned [OF ds rest nohex]
  have ws_sign: "\<not> is_ws 43" "\<not> is_ws 45"
    by (simp_all add: is_ws_def)
  from sg consider (none) "sg = []" | (plus) "sg = [43]" | (minus) "sg = [45]"
    by (auto simp: units_consts)
  then show ?thesis
  proof cases
    case none
    have S: "dropWhile is_ws (w @ sg @ ds @ rest) = ds @ rest"
      using w none cs is_digit_not_ws [OF c] by (simp add: dropWhile_append3)
    have S1: "ds @ rest = (if ds @ rest \<noteq> [] \<and> (hd (ds @ rest) = 43 \<or> hd (ds @ rest) = 45)
        then tl (ds @ rest) else ds @ rest)"
      using cs is_digit_not_sign [OF c] by simp
    have "hd (ds @ rest) \<noteq> 45"
      using cs is_digit_not_sign [OF c] by simp
    with parse_int_string_steps [OF S S1 u(2,3) u(1) ds(1)] none show ?thesis
      by (simp add: units_consts)
  next
    case plus
    have S: "dropWhile is_ws (w @ sg @ ds @ rest) = 43 # ds @ rest"
      using w plus ws_sign by (simp add: dropWhile_append3)
    have S1: "ds @ rest = (if 43 # ds @ rest \<noteq> [] \<and>
        (hd (43 # ds @ rest) = 43 \<or> hd (43 # ds @ rest) = 45)
        then tl (43 # ds @ rest) else 43 # ds @ rest)"
      by simp
    from parse_int_string_steps [OF S S1 u(2,3) u(1) ds(1)] plus show ?thesis
      by (simp add: units_consts)
  next
    case minus
    have S: "dropWhile is_ws (w @ sg @ ds @ rest) = 45 # ds @ rest"
      using w minus ws_sign by (simp add: dropWhile_append3)
    have S1: "ds @ rest = (if 45 # ds @ rest \<noteq> [] \<and>
        (hd (45 # ds @ rest) = 43 \<or> hd (45 # ds @ rest) = 45)
        then tl (45 # ds @ rest) else 45 # ds @ rest)"
      by simp
    from parse_int_string_steps [OF S S1 u(2,3) u(1) ds(1)] minus show ?thesis
      by (simp add: units_consts)
  qed
qed

lemma parse_int_no_digit:
  assumes w: "\<forall>c\<in>set w. is_ws c"
    and sg: "sg = [] \<or> sg = units ''+'' \<or> sg = units ''-''"
    and rest: "rest = [] \<or> (\<not> is_digit 10 (hd rest) \<and> \<not> is_ws (hd rest)
                 \<and> (sg = [] \<longrightarrow> hd rest \<noteq> 43 \<and> hd rest \<noteq> 45))"
  shows "parse_int_string (w @ sg @ rest) = NaN"
proof -
  have ws_sign: "\<not> is_ws 43" "\<not> is_ws 45"
    by (simp_all add: is_ws_def)
  have zero: "is_digit 10 48"
    by (simp add: is_digit_def digit_value_def)
  have tw: "takeWhile (is_digit 10) rest = []"
    using rest by (cases rest) auto
  have nohex: "take 2 rest \<noteq> [48, 120]" "take 2 rest \<noteq> [48, 88]"
    using rest zero by (cases rest; auto)+
  have S: "dropWhile is_ws (w @ sg @ rest) = sg @ rest"
  proof (cases "sg @ rest")
    case Nil
    then show ?thesis using w by simp
  next
    case (Cons x xs)
    then have "\<not> is_ws x"
      using sg rest ws_sign by (cases rest) (auto simp: units_consts)
    then show ?thesis
      using w Cons by (simp add: dropWhile_append3)
  qed
  have S1: "(if sg @ rest \<noteq> [] \<and> (hd (sg @ rest) = 43 \<or> hd (sg @ rest) = 45)
      then tl (sg @ rest) else sg @ rest) = rest"
    using sg rest by (cases rest) (auto simp: units_consts)
  show ?thesis
    unfolding parse_int_string_def units_consts S Let_def S1
    using nohex tw by simp
qed

lemma parse_decimal:
  assumes "i \<noteq> 0" and "\<bar>i\<bar> \<le> 2 ^ 53" and "rest = [] \<or> \<not> is_digit 10 (hd rest)"
  shows "parse_int_string (decimal i @ rest) = Num i"
proof -
  let ?n = "nat \<bar>i\<bar>"
  let ?sg = "if i < 0 then units ''-'' else []"
  have pos: "0 < ?n"
    using assms(1) by simp
  have d: "decimal i = ?sg @ digits10 ?n"
    by (simp add: decimal_def units_consts)
  have ds: "digits10 ?n \<noteq> []" "\<forall>c\<in>set (digits10 ?n). is_digit 10 c"
    using digits10_nonempty digits10_digits by blast+
  have nohex: "digits10 ?n = [48] \<longrightarrow> rest = [] \<or> (hd rest \<noteq> 120 \<and> hd rest \<noteq> 88)"
    using hd_digits10_nonzero [OF pos] by auto
  have "parse_int_string ([] @ ?sg @ digits10 ?n @ rest)
      = to_double ((if ?sg = units ''-'' then - 1 else 1) * int (math_int 10 (digits10 ?n)))"
    by (rule parse_int_prefix [OF _ _ ds assms(3) nohex]) (simp_all add: units_consts)
  also have "(if ?sg = units ''-'' then - 1 else 1) * int (math_int 10 (digits10 ?n)) = i"
    by (simp add: math_int_digits10 units_consts)
  finally show ?thesis
    using d assms(2) by (simp add: to_double_small)
qed

lemma parseInt_decimal:
  "i \<noteq> 0 \<Longrightarrow> \<bar>i\<bar> \<le> 2 ^ 53 \<Longrightarrow> parseInt (Some (decimal i)) = Num i"
  using parse_decimal [of i "[]"] by (simp add: parseInt_def to_string_def)

lemma bit_length_bounds: "0 < n \<Longrightarrow> 2 ^ (bit_length n - 1) \<le> n \<and> n < 2 ^ bit_length n"
proof (induction n rule: bit_length.induct)
  case (1 n)
  show ?case
  proof (cases "n div 2 = 0")
    case True
    with "1.prems" have "n = 1"
      by (simp add: div_eq_0_iff)
    then show ?thesis
      by (simp add: bit_length.simps [of "Suc 0"] bit_length.simps [of 0])
  next
    case False
    then have pos: "0 < n div 2"
      by simp
    from "1.IH" [OF _ pos] "1.prems"
    have IH: "2 ^ (bit_length (n div 2) - 1) \<le> n div 2" "n div 2 < 2 ^ bit_length (n div 2)"
      by simp_all
    have bl: "bit_length n = Suc (bit_length (n div 2))"
      using "1.prems" by (simp add: bit_length.simps [of n])
    have "0 < bit_length (n div 2)"
      using pos by (simp add: bit_length.simps [of "n div 2"])
    then have "(2::nat) ^ (bit_length n - 1) = 2 * 2 ^ (bit_length (n div 2) - 1)"
      unfolding bl by (cases "bit_length (n div 2)") simp_all
    moreover have "2 * (n div 2) \<le> n"
      by simp
    ultimately have lower: "2 ^ (bit_length n - 1) \<le> n"
      using IH(1) by linarith
    have "n < 2 * (n div 2) + 2"
      by presburger
    also have "\<dots> \<le> 2 * 2 ^ bit_length (n div 2)"
      using IH(2) by simp
    finally have "n < 2 ^ bit_length n"
      unfolding bl by simp
    with lower show ?thesis
      by simp
  qed
qed

lemma round_magnitude_overflow:
  assumes "2 ^ 1024 \<le> n"
  shows "round_magnitude n = None"
proof -
  define e where "e = bit_length n - 53"
  define q where "q = n div 2 ^ e"
  have pos: "0 < n"
    using assms by (metis less_le_trans zero_less_numeral zero_less_power)
  from bit_length_bounds [OF pos]
  have lo: "2 ^ (bit_length n - 1) \<le> n" and hi: "n < 2 ^ bit_length n"
    by simp_all
  have "(2::nat) ^ 1024 < 2 ^ bit_length n"
    using assms hi by linarith
  then have bl: "1024 < bit_length n"
    by (rule power_less_imp_less_exp [rotated]) simp
  then have e: "bit_length n - 1 = 52 + e" "972 \<le> e"
    by (simp_all add: e_def)
  have "2 ^ 52 * 2 ^ e \<le> n"
    using lo unfolding e(1) by (simp add: power_add)
  then have "2 ^ 52 \<le> q"
    unfolding q_def by (simp add: less_eq_div_iff_mult_less_eq)
  then have a: "2 ^ 52 * 2 ^ e \<le> q * 2 ^ e"
    by (rule mult_le_mono1)
  have "(2::nat) ^ 1024 \<le> 2 ^ (52 + e)"
    using e(2) by (intro power_increasing) simp_all
  then have b: "(2::nat) ^ 1024 \<le> 2 ^ 52 * 2 ^ e"
    by (simp only: power_add)
  have q1: "2 ^ 1024 \<le> q * 2 ^ e"
    by (rule order_trans [OF b a])
  have "q * 2 ^ e \<le> (q + 1) * 2 ^ e"
    by (rule mult_le_mono1) simp
  with q1 have q2: "2 ^ 1024 \<le> (q + 1) * 2 ^ e"
    by (rule order_trans)
  note q = q1 q2
  have big: "\<not> n \<le> 2 ^ 53"
  proof
    assume "n \<le> 2 ^ 53"
    with assms have "(2::nat) ^ 1024 \<le> 2 ^ 53"
      by linarith
    then show False
      by simp
  qed
  show ?thesis
    unfolding round_magnitude_def Let_def
    using big q by (simp add: e_def [symmetric] q_def [symmetric])
qed

lemma to_double_overflow:
  "2 ^ 1024 \<le> \<bar>i\<bar> \<Longrightarrow> to_double i = (if i < 0 then NegInfinity else Infinity)"
proof -
  assume "2 ^ 1024 \<le> \<bar>i\<bar>"
  then have "2 ^ 1024 \<le> nat \<bar>i\<bar>"
    by (simp add: le_nat_iff)
  from round_magnitude_overflow [OF this] show ?thesis
    by (simp add: to_double_def)
qed

lemma math_int_zeros: "math_int 10 (ds @ replicate k 48) = math_int 10 ds * 10 ^ k"
proof (induction k)
  case 0
  then show ?case by simp
next
  case (Suc k)
  have "math_int 10 (ds @ replicate (Suc k) 48) = math_int 10 ((ds @ replicate k 48) @ [48])"
    by (simp add: replicate_append_same)
  also have "\<dots> = math_int 10 (ds @ replicate k 48) * 10 + digit 48"
    by (rule math_int_snoc)
  finally show ?case
    using Suc by (simp add: digit_def digit_value_def)
qed

lemma parse_too_long:
  "parse_int_string (units ''2'' @ replicate 308 48) = Infinity"
proof -
  have ds: "units ''2'' @ replicate 308 48 \<noteq> []"
    "\<forall>c\<in>set (units ''2'' @ replicate 308 48). is_digit 10 c"
    by (auto simp: units_def is_digit_def digit_value_def)
  have nohex: "units ''2'' @ replicate 308 48 = [48] \<longrightarrow> [] = [] \<or> (hd [] \<noteq> 120 \<and> hd [] \<noteq> (88::nat))"
    by simp
  have "parse_int_string ([] @ [] @ (units ''2'' @ replicate 308 48) @ [])
      = to_double ((if [] = units ''-'' then - 1 else 1)
          * int (math_int 10 (units ''2'' @ replicate 308 48)))"
    by (rule parse_int_prefix [OF _ _ ds _ nohex]) simp_all
  moreover have "math_int 10 (units ''2'') = 2"
    by (simp add: math_int_def units_def digit_def digit_value_def)
  moreover have "(2::int) ^ 1024 \<le> 2 * 10 ^ 308"
    by simp
  ultimately show ?thesis
    by (simp add: math_int_zeros units_consts to_double_overflow)
qed

section \<open>Facts about the stages\<close>

lemma validation_reject:
  assumes "js_not (parseInt (req_query req ''a'')) \<or> js_not (parseInt (req_query req ''b''))"
  shows "validation req = Respond \<lparr>status = 422,
           body = Text ''You must specify two numbers as query params, A and B''\<rparr>"
  using assms unfolding validation_def Let_def by auto

lemma validation_accept:
  assumes "parseInt (req_query req ''a'') = va" and "\<not> js_not va"
    and "parseInt (req_query req ''b'') = vb" and "\<not> js_not vb"
  shows "validation req = Next (req\<lparr>req_a := va, req_b := vb\<rparr>)"
  using assms isNaN_js_not unfolding validation_def Let_def by auto

lemma validation_cases:
  "validation req = Respond \<lparr>status = 422,
      body = Text ''You must specify two numbers as query params, A and B''\<rparr>
   \<or> (\<exists>va vb. \<not> js_not va \<and> \<not> js_not vb
        \<and> validation req = Next (req\<lparr>req_a := va, req_b := vb\<rparr>))"
proof (cases "js_not (parseInt (req_query req ''a'')) \<or> js_not (parseInt (req_query req ''b''))")
  case True
  then show ?thesis
    by (simp add: validation_reject)
next
  case False
  then show ?thesis
    using validation_accept [of req "parseInt (req_query req ''a'')" "parseInt (req_query req ''b'')"]
    by blast
qed

lemma validation_rejects_unparsed:
  assumes "req_query req ''a'' = None \<or> parseInt (req_query req ''a'') = NaN
             \<or> parseInt (req_query req ''a'') = Num 0
           \<or> req_query req ''b'' = None \<or> parseInt (req_query req ''b'') = NaN
             \<or> parseInt (req_query req ''b'') = Num 0"
  shows "validation req = Respond \<lparr>status = 422,
            body = Text ''You must specify two numbers as query params, A and B''\<rparr>
         \<and> dispatch (Use validation # stack) req = Some \<lparr>status = 422,
            body = Text ''You must specify two numbers as query params, A and B''\<rparr>"
proof -
  from assms have "js_not (parseInt (req_query req ''a'')) \<or> js_not (parseInt (req_query req ''b''))"
    by (auto simp: parseInt_missing)
  from validation_reject [OF this] show ?thesis
    by simp
qed

text \<open>
  A parameter whose text, after white space and an optional sign, does not go on
  with a digit is rejected, whatever the other parameter is.
\<close>

lemma validation_rejects_no_digit:
  assumes "req_query req ''a'' = Some (w @ sg @ rest) \<or> req_query req ''b'' = Some (w @ sg @ rest)"
    and "\<forall>c\<in>set w. is_ws c"
    and "sg = [] \<or> sg = units ''+'' \<or> sg = units ''-''"
    and "rest = [] \<or> (\<not> is_digit 10 (hd rest) \<and> \<not> is_ws (hd rest)
           \<and> (sg = [] \<longrightarrow> hd rest \<noteq> 43 \<and> hd rest \<noteq> 45))"
  shows "validation req = Respond \<lparr>status = 422,
           body = Text ''You must specify two numbers as query params, A and B''\<rparr>"
proof -
  have "parse_int_string (w @ sg @ rest) = NaN"
    using assms(2-4) by (rule parse_int_no_digit)
  then have "parseInt (req_query req ''a'') = NaN \<or> parseInt (req_query req ''b'') = NaN"
    using assms(1) by (auto simp: parseInt_def to_string_def)
  then show ?thesis
    using validation_rejects_unparsed [of req "[]"] by auto
qed

lemmas route_defs = app_def incoming_def routes_add_def routes_subtract_def handles_method_def
  path_matches_def units_def lower_unit_def

lemma dispatch_app_add:
  "dispatch app (incoming GET (units ''/add'') q)
     = Some (res_json [(''result'', add Undefined Undefined)])"
  by (simp add: route_defs)

lemma dispatch_app_subtract:
  "dispatch app (incoming GET (units ''/subtract'') q)
     = Some (res_json [(''result'', subtract Undefined Undefined)])"
  by (simp add: route_defs)

lemma app_path_variants:
  "dispatch app (incoming GET (units ''/ADD/'') q)
     = Some (res_json [(''result'', add Undefined Undefined)])
   \<and> dispatch app (incoming HEAD (units ''/Subtract'') q)
     = Some (res_json [(''result'', subtract Undefined Undefined)])
   \<and> dispatch app (incoming POST (units ''/add'') q) = None
   \<and> dispatch app (incoming GET (units ''/add//'') q) = None"
  by (simp add: route_defs)

section \<open>The application of the README: validation ahead of the routes\<close>

text \<open>
  With the middleware mounted ahead of the two routes, a request either gets the 422
  answer or reaches the routes with two truthy numbers in \<^verbatim>\<open>req.a\<close> and \<^verbatim>\<open>req.b\<close>: each
  is a nonzero integer or an infinity.
\<close>

lemma app_with_validation_operands:
  "dispatch app_with_validation req = Some \<lparr>status = 422,
      body = Text ''You must specify two numbers as query params, A and B''\<rparr>
   \<or> (\<exists>va vb. \<not> js_not va \<and> \<not> js_not vb \<and>
        dispatch app_with_validation req = dispatch app (req\<lparr>req_a := va, req_b := vb\<rparr>))"
proof -
  consider (reject) "validation req = Respond \<lparr>status = 422,
      body = Text ''You must specify two numbers as query params, A and B''\<rparr>"
    | (accept) va vb where "\<not> js_not va" "\<not> js_not vb"
      "validation req = Next (req\<lparr>req_a := va, req_b := vb\<rparr>)"
    using validation_cases [of req] by blast
  then show ?thesis
  proof cases
    case reject
    then show ?thesis
      by (simp add: app_with_validation_def)
  next
    case accept
    then have "dispatch app_with_validation req
        = dispatch app (req\<lparr>req_a := va, req_b := vb\<rparr>)"
      by (simp add: app_with_validation_def)
    with accept(1,2) show ?thesis
      by blast
  qed
qed

lemma app_with_validation_rejects:
  assumes "js_not (parseInt (q ''a'')) \<or> js_not (parseInt (q ''b''))"
  shows "dispatch app_with_validation (incoming m p q) = Some \<lparr>status = 422,
      body = Text ''You must specify two numbers as query params, A and B''\<rparr>"
proof -
  have "js_not (parseInt (req_query (incoming m p q) ''a''))
      \<or> js_not (parseInt (req_query (incoming m p q) ''b''))"
    using assms by (simp add: incoming_def)
  from validation_reject [OF this] show ?thesis
    by (simp add: app_with_validation_def)
qed

text \<open>
  A digit string too long for binary64 passes the middleware as an infinity.
\<close>

lemma app_with_validation_infinity:
  "validation (incoming GET (units ''/add'') [''a'' \<mapsto> units ''2'' @ replicate 308 48, ''b'' \<mapsto> units ''1''])
     = Next ((incoming GET (units ''/add'') [''a'' \<mapsto> units ''2'' @ replicate 308 48, ''b'' \<mapsto> units ''1''])
          \<lparr>req_a := Infinity, req_b := Num 1\<rparr>)"
proof -
  let ?req = "incoming GET (units ''/add'')
    [''a'' \<mapsto> units ''2'' @ replicate 308 48, ''b'' \<mapsto> units ''1'']"
  have "parseInt (req_query ?req ''a'') = Infinity"
    by (simp add: incoming_def parseInt_def to_string_def parse_too_long)
  moreover have "parseInt (req_query ?req ''b'') = Num 1"
    by (simp add: incoming_def parse_defs)
  ultimately show ?thesis
    by (simp add: validation_accept)
qed

lemma app_with_validation_add:
  assumes "x \<noteq> 0" and "y \<noteq> 0"
    and "\<bar>x\<bar> \<le> 2 ^ 53" and "\<bar>y\<bar> \<le> 2 ^ 53" and "\<bar>x + y\<bar> \<le> 2 ^ 53"
  shows "dispatch app_with_validation
           (incoming GET (units ''/add'') [''a'' \<mapsto> decimal x, ''b'' \<mapsto> decimal y])
         = Some \<lparr>status = 200, body = Json [(''result'', JNum (x + y))]\<rparr>"
proof -
  let ?req = "incoming GET (units ''/add'') [''a'' \<mapsto> decimal x, ''b'' \<mapsto> decimal y]"
  have "parseInt (req_query ?req ''a'') = Num x" "parseInt (req_query ?req ''b'') = Num y"
    using assms by (simp_all add: incoming_def parseInt_decimal)
  then have "validation ?req = Next (?req\<lparr>req_a := Num x, req_b := Num y\<rparr>)"
    using assms(1,2) validation_accept [of ?req "Num x" "Num y"] by simp
  then show ?thesis
    by (simp add: app_with_validation_def route_defs res_json_def)
qed

lemma app_with_validation_subtract:
  assumes "x \<noteq> 0" and "y \<noteq> 0"
    and "\<bar>x\<bar> \<le> 2 ^ 53" and "\<bar>y\<bar> \<le> 2 ^ 53" and "\<bar>x - y\<bar> \<le> 2 ^ 53"
  shows "dispatch app_with_validation
           (incoming GET (units ''/subtract'') [''a'' \<mapsto> decimal x, ''b'' \<mapsto> decimal y])
         = Some \<lparr>status = 200, body = Json [(''result'', JNum (x - y))]\<rparr>"
proof -
  let ?req = "incoming GET (units ''/subtract'') [''a'' \<mapsto> decimal x, ''b'' \<mapsto> decimal y]"
  have "parseInt (req_query ?req ''a'') = Num x" "parseInt (req_query ?req ''b'') = Num y"
    using assms by (simp_all add: incoming_def parseInt_decimal)
  then have "validation ?req = Next (?req\<lparr>req_a := Num x, req_b := Num y\<rparr>)"
    using assms(1,2) validation_accept [of ?req "Num x" "Num y"] by simp
  then show ?thesis
    by (simp add: app_with_validation_def route_defs res_json_def)
qed

section \<open>The application of \<^verbatim>\<open>app.js\<close>: the routes alone\<close>

lemma app_ignores_query:
  "dispatch app (incoming GET (units ''/add'') q) = dispatch app (incoming GET (units ''/add'') q')
   \<and> dispatch app (incoming GET (units ''/subtract'') q)
     = dispatch app (incoming GET (units ''/subtract'') q')"
  by (simp add: dispatch_app_add dispatch_app_subtract)

section \<open>The claims\<close>

text \<open>
  Claim C1. A route handler runs only after the validation middleware has completed
  successfully, so it never runs with operands that are not valid integers. In
  \<^verbatim>\<open>app.js\<close> this fails: for the request \<^verbatim>\<open>GET /add?a=string&b=2\<close> of the README's own
  test, which the middleware rejects, the application answers with the output of the
  add handler, computed from two undefined operands.
\<close>

theorem app_js_handler_runs_unvalidated:
  "validation (incoming GET (units ''/add'') [''a'' \<mapsto> units ''string'', ''b'' \<mapsto> units ''2''])
     = Respond \<lparr>status = 422,
         body = Text ''You must specify two numbers as query params, A and B''\<rparr>
   \<and> req_a (incoming GET (units ''/add'') [''a'' \<mapsto> units ''string'', ''b'' \<mapsto> units ''2''])
     = Undefined
   \<and> req_b (incoming GET (units ''/add'') [''a'' \<mapsto> units ''string'', ''b'' \<mapsto> units ''2''])
     = Undefined
   \<and> dispatch app (incoming GET (units ''/add'') [''a'' \<mapsto> units ''string'', ''b'' \<mapsto> units ''2''])
     = Some (res_json [(''result'', add Undefined Undefined)])"
proof -
  have "parseInt (Some (units ''string'')) = NaN"
    by (simp add: parse_defs)
  then have "js_not (parseInt (req_query
      (incoming GET (units ''/add'') [''a'' \<mapsto> units ''string'', ''b'' \<mapsto> units ''2'']) ''a''))"
    by (simp add: incoming_def)
  then show ?thesis
    by (simp add: validation_reject dispatch_app_add) (simp add: incoming_def)
qed

text \<open>
  Claim C2. When query parameter \<open>a\<close> or \<open>b\<close> is missing, non-numeric or zero, the
  validation middleware answers 422 with its plain-text message and the route handler
  is not invoked. This fails for a non-numeric parameter that begins with digits: for
  \<^verbatim>\<open>GET /add?a=5abc&b=2\<close> and for \<^verbatim>\<open>GET /add?a=3.9&b=2\<close> the middleware calls the next
  stage, with 5 and with 3 as the first operand, and behind it the add handler
  answers.
\<close>

theorem validation_passes_non_numeric:
  "validation (incoming GET (units ''/add'') [''a'' \<mapsto> units ''5abc'', ''b'' \<mapsto> units ''2''])
     = Next \<lparr>req_method = GET, req_path = units ''/add'',
         req_query = [''a'' \<mapsto> units ''5abc'', ''b'' \<mapsto> units ''2''],
         req_a = Num 5, req_b = Num 2\<rparr>
   \<and> dispatch app_with_validation
         (incoming GET (units ''/add'') [''a'' \<mapsto> units ''5abc'', ''b'' \<mapsto> units ''2''])
     = Some (res_json [(''result'', add (Num 5) (Num 2))])
   \<and> validation (incoming GET (units ''/add'') [''a'' \<mapsto> units ''3.9'', ''b'' \<mapsto> units ''2''])
     = Next \<lparr>req_method = GET, req_path = units ''/add'',
         req_query = [''a'' \<mapsto> units ''3.9'', ''b'' \<mapsto> units ''2''],
         req_a = Num 3, req_b = Num 2\<rparr>
   \<and> dispatch app_with_validation
         (incoming GET (units ''/add'') [''a'' \<mapsto> units ''3.9'', ''b'' \<mapsto> units ''2''])
     = Some (res_json [(''result'', add (Num 3) (Num 2))])"
proof -
  let ?r1 = "incoming GET (units ''/add'') [''a'' \<mapsto> units ''5abc'', ''b'' \<mapsto> units ''2'']"
  let ?r2 = "incoming GET (units ''/add'') [''a'' \<mapsto> units ''3.9'', ''b'' \<mapsto> units ''2'']"
  have p: "parseInt (Some (units ''5abc'')) = Num 5" "parseInt (Some (units ''3.9'')) = Num 3"
    "parseInt (Some (units ''2'')) = Num 2"
    by (simp_all add: parse_defs)
  have v1: "validation ?r1 = Next (?r1\<lparr>req_a := Num 5, req_b := Num 2\<rparr>)"
    by (rule validation_accept) (simp_all add: incoming_def p)
  have v2: "validation ?r2 = Next (?r2\<lparr>req_a := Num 3, req_b := Num 2\<rparr>)"
    by (rule validation_accept) (simp_all add: incoming_def p)
  have d1: "dispatch app_with_validation ?r1 = Some (res_json [(''result'', add (Num 5) (Num 2))])"
    unfolding app_with_validation_def by (simp only: dispatch.simps v1) (simp add: route_defs)
  have d2: "dispatch app_with_validation ?r2 = Some (res_json [(''result'', add (Num 3) (Num 2))])"
    unfolding app_with_validation_def by (simp only: dispatch.simps v2) (simp add: route_defs)
  show ?thesis
    using v1 v2 d1 d2 by (simp add: incoming_def)
qed

text \<open>
  Claim C3. For nonzero integers \<open>a\<close> and \<open>b\<close>, \<^verbatim>\<open>GET /add?a=a&b=b\<close> returns status 200
  and a JSON body whose \<^verbatim>\<open>result\<close> is \<open>a + b\<close>. In \<^verbatim>\<open>app.js\<close> this fails: for
  \<^verbatim>\<open>GET /add?a=1&b=1\<close> the body is what the add handler makes of two undefined
  operands, and the response is the same as for \<^verbatim>\<open>GET /add?a=1&b=2\<close>.
\<close>

theorem app_js_add_result:
  "dispatch app (incoming GET (units ''/add'') [''a'' \<mapsto> units ''1'', ''b'' \<mapsto> units ''1''])
     = Some (res_json [(''result'', add Undefined Undefined)])
   \<and> dispatch app (incoming GET (units ''/add'') [''a'' \<mapsto> units ''1'', ''b'' \<mapsto> units ''1''])
     = dispatch app (incoming GET (units ''/add'') [''a'' \<mapsto> units ''1'', ''b'' \<mapsto> units ''2''])"
  by (simp add: dispatch_app_add)

text \<open>
  Claim C4. For nonzero integers \<open>a\<close> and \<open>b\<close>, \<^verbatim>\<open>GET /subtract?a=a&b=b\<close> returns status
  200 and a JSON body whose \<^verbatim>\<open>result\<close> is \<open>a - b\<close>. In \<^verbatim>\<open>app.js\<close> this fails: for
  \<^verbatim>\<open>GET /subtract?a=5&b=4\<close>, the request of the README's test, the body is what the
  subtract handler makes of two undefined operands, and the response is the same as
  for \<^verbatim>\<open>GET /subtract?a=5&b=3\<close>.
\<close>

theorem app_js_subtract_result:
  "dispatch app (incoming GET (units ''/subtract'') [''a'' \<mapsto> units ''5'', ''b'' \<mapsto> units ''4''])
     = Some (res_json [(''result'', subtract Undefined Undefined)])
   \<and> dispatch app (incoming GET (units ''/subtract'') [''a'' \<mapsto> units ''5'', ''b'' \<mapsto> units ''4''])
     = dispatch app (incoming GET (units ''/subtract'') [''a'' \<mapsto> units ''5'', ''b'' \<mapsto> units ''3''])"
  by (simp add: dispatch_app_subtract)

text \<open>
  Claim C5. The arithmetic functions are correct: on numbers \<open>add\<close> returns the sum
  and \<open>subtract\<close> the difference; in particular \<^verbatim>\<open>add(1,1)\<close> is 2, \<^verbatim>\<open>add(-2,-2)\<close> is -4
  and \<^verbatim>\<open>subtract(5,4)\<close> is 1.
\<close>

theorem add_subtract_arithmetic:
  "add (Num x) (Num y) = Num (x + y) \<and> subtract (Num x) (Num y) = Num (x - y)
   \<and> add (Num 1) (Num 1) = Num 2 \<and> add (Num (- 2)) (Num (- 2)) = Num (- 4)
   \<and> subtract (Num 5) (Num 4) = Num 1"
  by simp

text \<open>
  Claim C6. When both query parameters parse to nonzero integers, the validation
  middleware writes exactly these two integers into the fields \<open>a\<close> and \<open>b\<close> of the
  request context, leaves every other part of the request as it was, and calls the
  next stage with it.
\<close>

theorem validation_success_frame:
  assumes "parseInt (req_query req ''a'') = Num m" and "m \<noteq> 0"
    and "parseInt (req_query req ''b'') = Num n" and "n \<noteq> 0"
  shows "validation req = Next (req\<lparr>req_a := Num m, req_b := Num n\<rparr>)
         \<and> dispatch (Use validation # stack) req
             = dispatch stack (req\<lparr>req_a := Num m, req_b := Num n\<rparr>)"
proof -
  have "validation req = Next (req\<lparr>req_a := Num m, req_b := Num n\<rparr>)"
    using assms by (intro validation_accept) simp_all
  then show ?thesis
    by simp
qed

theorem validation_success_frame_witness:
  "parseInt (Some (units ''5'')) = Num 5 \<and> parseInt (Some (units ''-4'')) = Num (- 4)
   \<and> validation \<lparr>req_method = GET, req_path = units ''/subtract'',
         req_query = [''a'' \<mapsto> units ''5'', ''b'' \<mapsto> units ''-4''],
         req_a = Undefined, req_b = Undefined\<rparr>
      = Next \<lparr>req_method = GET, req_path = units ''/subtract'',
         req_query = [''a'' \<mapsto> units ''5'', ''b'' \<mapsto> units ''-4''],
         req_a = Num 5, req_b = Num (- 4)\<rparr>"
proof -
  have p: "parseInt (Some (units ''5'')) = Num 5" "parseInt (Some (units ''-4'')) = Num (- 4)"
    by (simp_all add: parse_defs)
  show ?thesis
    using p validation_success_frame [of "\<lparr>req_method = GET, req_path = units ''/subtract'',
      req_query = [''a'' \<mapsto> units ''5'', ''b'' \<mapsto> units ''-4''],
      req_a = Undefined, req_b = Undefined\<rparr>" 5 "- 4" "[]"]
    by simp
qed

text \<open>
  Claim C8. Validation failures are handled inside the validation middleware; the
  only error the client sees is 422, and no failure reaches the route handlers. In
  \<^verbatim>\<open>app.js\<close> this fails: for \<^verbatim>\<open>GET /subtract\<close> with no query parameters, which the
  middleware rejects, the client gets status 200 from the subtract handler.
\<close>

theorem app_js_answers_200_on_invalid:
  "validation (incoming GET (units ''/subtract'') Map.empty)
     = Respond \<lparr>status = 422,
         body = Text ''You must specify two numbers as query params, A and B''\<rparr>
   \<and> map_option status (dispatch app (incoming GET (units ''/subtract'') Map.empty)) = Some 200"
proof -
  have "js_not (parseInt (req_query (incoming GET (units ''/subtract'') Map.empty) ''a''))"
    by (simp add: incoming_def parseInt_missing)
  then show ?thesis
    by (simp add: validation_reject dispatch_app_subtract res_json_def)
qed

text \<open>
  Claim C9. Validation accepts parameters that are not integer literals: whatever
  the two texts are, when \<^verbatim>\<open>parseInt\<close> makes nonzero integers of them (as it does of
  \<^verbatim>\<open>3.9\<close> and \<^verbatim>\<open>5abc\<close>, reading the digits they begin with), the middleware does not
  answer 422 but hands these integers (3 and 5) to the next stage.
\<close>

theorem validation_accepts_numeric_prefix:
  assumes "req_query req ''a'' = Some sa" and "req_query req ''b'' = Some sb"
    and "parse_int_string sa = Num m" and "m \<noteq> 0"
    and "parse_int_string sb = Num n" and "n \<noteq> 0"
  shows "validation req = Next (req\<lparr>req_a := Num m, req_b := Num n\<rparr>)
         \<and> dispatch (Use validation # stack) req
             = dispatch stack (req\<lparr>req_a := Num m, req_b := Num n\<rparr>)"
proof -
  have a: "parseInt (req_query req ''a'') = Num m"
    using assms(1,3) by (simp add: parseInt_def to_string_def)
  have b: "parseInt (req_query req ''b'') = Num n"
    using assms(2,5) by (simp add: parseInt_def to_string_def)
  have "validation req = Next (req\<lparr>req_a := Num m, req_b := Num n\<rparr>)"
    using a b assms(4,6) by (intro validation_accept) simp_all
  then show ?thesis
    by simp
qed

theorem validation_accepts_numeric_prefix_witness:
  "parse_int_string (units ''3.9'') = Num 3 \<and> parse_int_string (units ''5abc'') = Num 5
   \<and> validation (incoming GET (units ''/add'') [''a'' \<mapsto> units ''3.9'', ''b'' \<mapsto> units ''5abc''])
     = Next \<lparr>req_method = GET, req_path = units ''/add'',
         req_query = [''a'' \<mapsto> units ''3.9'', ''b'' \<mapsto> units ''5abc''],
         req_a = Num 3, req_b = Num 5\<rparr>
   \<and> parse_int_string (units '' 007abc'') = Num 7 \<and> parse_int_string (units ''0x1f'') = Num 31
   \<and> validation (incoming GET (units ''/add'') [''a'' \<mapsto> units '' 007abc'', ''b'' \<mapsto> units ''0x1f''])
     = Next \<lparr>req_method = GET, req_path = units ''/add'',
         req_query = [''a'' \<mapsto> units '' 007abc'', ''b'' \<mapsto> units ''0x1f''],
         req_a = Num 7, req_b = Num 31\<rparr>
   \<and> parse_int_string (units ''+42 '') = Num 42
   \<and> parse_int_string (units ''-9007199254740993.5'') = Num (- 9007199254740992)
   \<and> validation (incoming GET (units ''/add'')
         [''a'' \<mapsto> units ''+42 '', ''b'' \<mapsto> units ''-9007199254740993.5''])
     = Next \<lparr>req_method = GET, req_path = units ''/add'',
         req_query = [''a'' \<mapsto> units ''+42 '', ''b'' \<mapsto> units ''-9007199254740993.5''],
         req_a = Num 42, req_b = Num (- 9007199254740992)\<rparr>"
proof -
  have p: "parse_int_string (units ''3.9'') = Num 3" "parse_int_string (units ''5abc'') = Num 5"
    "parse_int_string (units '' 007abc'') = Num 7" "parse_int_string (units ''0x1f'') = Num 31"
    "parse_int_string (units ''+42 '') = Num 42"
    by (simp_all add: parse_defs)
  have r: "parse_int_string (units ''-9007199254740993.5'') = Num (- 9007199254740992)"
    by (simp add: parse_defs bit_length.simps Let_def)
  show ?thesis
    using p r
      validation_accepts_numeric_prefix [of
        "incoming GET (units ''/add'') [''a'' \<mapsto> units ''3.9'', ''b'' \<mapsto> units ''5abc'']"
        "units ''3.9''" "units ''5abc''" 3 5 "[]"]
      validation_accepts_numeric_prefix [of
        "incoming GET (units ''/add'') [''a'' \<mapsto> units '' 007abc'', ''b'' \<mapsto> units ''0x1f'']"
        "units '' 007abc''" "units ''0x1f''" 7 31 "[]"]
      validation_accepts_numeric_prefix [of
        "incoming GET (units ''/add'')
          [''a'' \<mapsto> units ''+42 '', ''b'' \<mapsto> units ''-9007199254740993.5'']"
        "units ''+42 ''" "units ''-9007199254740993.5''" 42 "- 9007199254740992" "[]"]
    by (simp add: incoming_def)
qed

text \<open>
  Claim C10. In the failure condition \<^verbatim>\<open>!a || !b || isNaN(a) || isNaN(b)\<close> the two
  \<^verbatim>\<open>isNaN\<close> tests are redundant: the middleware with the condition \<^verbatim>\<open>!a || !b\<close> alone
  gives the same response or the same mutated request on every request.
\<close>

theorem validation_short_equivalent: "validation_short req = validation req"
  unfolding validation_short_def validation_def Let_def
  using isNaN_js_not by auto

end
